theory Spec2Isabelle
  imports Main "HOL-Library.Word"
begin

section \<open>JavaScript strings and SQLite text\<close>

text \<open>
  A JavaScript string is a list of UTF-16 code units: \<^verbatim>\<open>length\<close> counts units and
  \<^verbatim>\<open>substring\<close> cuts between units. \<open>js\<close> writes a literal of the program, whose characters
  are all below 256, as such a list.
\<close>

type_synonym code_unit = "16 word"
type_synonym jsstring = "code_unit list"

definition js :: "string \<Rightarrow> jsstring" where
  "js s = map (\<lambda>c. word_of_nat (of_char c)) s"

text \<open>
  The units \<^verbatim>\<open>D800\<close> to \<^verbatim>\<open>DBFF\<close> are high surrogates, \<^verbatim>\<open>DC00\<close> to \<^verbatim>\<open>DFFF\<close> low
  surrogates; a high surrogate followed by a low one is one character.
\<close>

definition is_high :: "code_unit \<Rightarrow> bool" where
  "is_high u = (0xD800 \<le> unat u \<and> unat u \<le> 0xDBFF)"

definition is_low :: "code_unit \<Rightarrow> bool" where
  "is_low u = (0xDC00 \<le> unat u \<and> unat u \<le> 0xDFFF)"

text \<open>
  A string bound to a \<^verbatim>\<open>?\<close> of a statement is handed to SQLite as UTF-8, and a column read
  back is decoded from UTF-8. UTF-8 has no surrogates: a surrogate that is not part of a
  pair is written as the replacement character \<^verbatim>\<open>FFFD\<close>. \<open>sqlite_text s\<close> is the string
  that comes back for \<open>s\<close>; every other string comes back as it was.
\<close>

fun sqlite_text :: "jsstring \<Rightarrow> jsstring" where
  "sqlite_text (u # v # us) =
     (if is_high u \<and> is_low v then u # v # sqlite_text us
      else (if is_high u \<or> is_low u then 0xFFFD else u) # sqlite_text (v # us))"
| "sqlite_text [u] = [if is_high u \<or> is_low u then 0xFFFD else u]"
| "sqlite_text [] = []"

section \<open>The chat store: tables, clock and storage faults\<close>

text \<open>
  The program keeps two SQLite tables, \<^verbatim>\<open>chat_sessions\<close> and \<^verbatim>\<open>messages\<close>, and talks to
  them through the functions \<^verbatim>\<open>getChatSessions\<close>, \<^verbatim>\<open>getConversationHistory\<close>,
  \<^verbatim>\<open>saveMessage\<close>, \<^verbatim>\<open>createNewChatSession\<close> and \<^verbatim>\<open>deleteChatSession\<close>. A table is the list
  of its rows in rowid order.

  Two things of the environment are made explicit arguments:
  \<^item> the clock. \<^verbatim>\<open>CURRENT_TIMESTAMP\<close> and \<^verbatim>\<open>datetime('now')\<close> are read by SQLite when a
    statement runs, with a resolution of one second; a reading is a \<^typ>\<open>nat\<close>, the number
    of seconds since some origin;
  \<^item> storage faults. A statement either runs, or fails with an error message and changes
    nothing; \<open>None\<close> is "runs" and \<open>Some msg\<close> is the fault whose \<^verbatim>\<open>err.message\<close> is \<open>msg\<close>.
\<close>

type_synonym time = nat
type_synonym fault = "jsstring option"

record session_row =
  s_id :: jsstring
  s_title :: jsstring
  s_created_at :: time
  s_updated_at :: time

record message_row =
  m_id :: nat
  m_session_id :: jsstring
  m_role :: jsstring
  m_content :: jsstring
  m_timestamp :: time

text \<open>
  \<open>msg_seq\<close> is the \<^verbatim>\<open>AUTOINCREMENT\<close> counter of \<^verbatim>\<open>messages.id\<close>: the largest id handed
  out so far.
\<close>

record db =
  chat_sessions :: "session_row list"
  messages :: "message_row list"
  msg_seq :: nat

text \<open>The objects \<^verbatim>\<open>{role, content}\<close> that a history read returns and the gateway receives.\<close>

record chat_message =
  msg_role :: jsstring
  msg_content :: jsstring

definition empty_db :: db where
  "empty_db = \<lparr>chat_sessions = [], messages = [], msg_seq = 0\<rparr>"

definition session_ids :: "db \<Rightarrow> jsstring set" where
  "session_ids d = set (map s_id (chat_sessions d))"

subsection \<open>The SQL statements\<close>

text \<open>
  \<^verbatim>\<open>INSERT OR REPLACE INTO chat_sessions (id, title, updated_at) VALUES (?, ?, datetime('now'))\<close>:
  a row with the same primary key is deleted, then the new row is inserted. The column
  \<^verbatim>\<open>created_at\<close> is not in the column list, so the new row takes its default
  \<^verbatim>\<open>CURRENT_TIMESTAMP\<close>.
\<close>

definition insert_or_replace_session :: "time \<Rightarrow> jsstring \<Rightarrow> jsstring \<Rightarrow> db \<Rightarrow> db" where
  "insert_or_replace_session now sessionId title d =
     d\<lparr>chat_sessions :=
         filter (\<lambda>r. s_id r \<noteq> sqlite_text sessionId) (chat_sessions d)
         @ [\<lparr>s_id = sqlite_text sessionId, s_title = sqlite_text title,
             s_created_at = now, s_updated_at = now\<rparr>]\<rparr>"

text \<open>\<^verbatim>\<open>UPDATE chat_sessions SET updated_at = datetime('now') WHERE id = ?\<close>\<close>

definition update_session_updated_at :: "time \<Rightarrow> jsstring \<Rightarrow> db \<Rightarrow> db" where
  "update_session_updated_at now sessionId d =
     d\<lparr>chat_sessions :=
         map (\<lambda>r. if s_id r = sqlite_text sessionId then r\<lparr>s_updated_at := now\<rparr> else r)
           (chat_sessions d)\<rparr>"

text \<open>
  \<^verbatim>\<open>INSERT INTO messages (session_id, role, content) VALUES (?, ?, ?)\<close>: the id is the next
  value of the counter, the timestamp the column default. The program never issues
  \<^verbatim>\<open>PRAGMA foreign_keys = ON\<close>, so SQLite does not check the table's
  \<^verbatim>\<open>FOREIGN KEY (session_id) REFERENCES chat_sessions (id)\<close> clause.
\<close>

definition insert_message :: "time \<Rightarrow> jsstring \<Rightarrow> jsstring \<Rightarrow> jsstring \<Rightarrow> db \<Rightarrow> db" where
  "insert_message now sessionId role content d =
     d\<lparr>messages :=
         messages d
         @ [\<lparr>m_id = Suc (msg_seq d), m_session_id = sqlite_text sessionId,
             m_role = sqlite_text role, m_content = sqlite_text content,
             m_timestamp = now\<rparr>],
       msg_seq := Suc (msg_seq d)\<rparr>"

text \<open>\<^verbatim>\<open>DELETE FROM messages WHERE session_id = ?\<close> and \<^verbatim>\<open>DELETE FROM chat_sessions WHERE id = ?\<close>\<close>

definition delete_messages :: "jsstring \<Rightarrow> db \<Rightarrow> db" where
  "delete_messages sessionId d =
     d\<lparr>messages := filter (\<lambda>m. m_session_id m \<noteq> sqlite_text sessionId) (messages d)\<rparr>"

definition delete_session :: "jsstring \<Rightarrow> db \<Rightarrow> db" where
  "delete_session sessionId d =
     d\<lparr>chat_sessions := filter (\<lambda>r. s_id r \<noteq> sqlite_text sessionId) (chat_sessions d)\<rparr>"

text \<open>
  What became of a call: it came to its end with a value, or the process died under it.
\<close>

datatype 'a run = Done 'a | ProcessDied

text \<open>
  A \<^verbatim>\<open>db.run\<close> without a completion callback. When the statement faults nothing is
  changed, and the driver, having no callback to hand the error to, emits an \<^verbatim>\<open>error\<close>
  event. The program listens for none, so the event is thrown as an uncaught exception
  and the process ends: the statements queued behind do not run and no promise of the
  call is settled. \<open>None\<close> is that end.
\<close>

definition run_unchecked :: "fault \<Rightarrow> (db \<Rightarrow> db) \<Rightarrow> db \<Rightarrow> db option" where
  "run_unchecked f stmt d = (case f of None \<Rightarrow> Some (stmt d) | Some err \<Rightarrow> None)"

subsection \<open>The store functions\<close>

text \<open>
  \<^verbatim>\<open>getChatSessions\<close>: \<^verbatim>\<open>ORDER BY updated_at DESC\<close>. \<^verbatim>\<open>getConversationHistory\<close>:
  \<^verbatim>\<open>SELECT role, content FROM messages WHERE session_id = ? ORDER BY timestamp ASC\<close>.
  The rows are scanned in rowid order and sorted on the key alone; rows with equal keys stay
  in scan order (\<^const>\<open>sort_key\<close> is an insertion sort and is stable). The promise is
  rejected with the error (\<open>Inl\<close>) or resolved with the rows (\<open>Inr\<close>).
\<close>

definition getChatSessions :: "db \<Rightarrow> fault \<Rightarrow> jsstring + session_row list" where
  "getChatSessions d f =
     (case f of
        Some err \<Rightarrow> Inl err
      | None \<Rightarrow> Inr (sort_key (\<lambda>r. - int (s_updated_at r)) (chat_sessions d)))"

definition getConversationHistory ::
  "db \<Rightarrow> fault \<Rightarrow> jsstring \<Rightarrow> jsstring + chat_message list" where
  "getConversationHistory d f sessionId =
     (case f of
        Some err \<Rightarrow> Inl err
      | None \<Rightarrow>
          Inr (map (\<lambda>m. \<lparr>msg_role = m_role m, msg_content = m_content m\<rparr>)
                 (sort_key m_timestamp
                    (filter (\<lambda>m. m_session_id m = sqlite_text sessionId) (messages d)))))"

text \<open>
  The environment of one \<^verbatim>\<open>saveMessage\<close> call: the clock reading and the fault of its first
  statement (the session row) and of its second (the message row).
\<close>

record save_env =
  meta_now :: time
  meta_fault :: fault
  insert_now :: time
  insert_fault :: fault

text \<open>
  \<^verbatim>\<open>saveMessage(sessionId, role, content, isFirstMessage = false)\<close>. Inside
  \<^verbatim>\<open>db.serialize\<close> the two statements run one after the other; there is no
  \<^verbatim>\<open>BEGIN\<close>/\<^verbatim>\<open>COMMIT\<close> around them. The title is computed on the JavaScript string, in
  code units, and then bound. Only the second statement has a callback: the promise is
  rejected with its error, and resolved otherwise.
\<close>

definition saveMessage ::
  "db \<Rightarrow> save_env \<Rightarrow> jsstring \<Rightarrow> jsstring \<Rightarrow> jsstring \<Rightarrow> bool
     \<Rightarrow> (jsstring + unit) run \<times> db" where
  "saveMessage d e sessionId role content isFirstMessage =
     (case
        (if isFirstMessage then
           (let title = (if length content > 30 then take 30 content @ js ''...'' else content)
            in run_unchecked (meta_fault e)
                 (insert_or_replace_session (meta_now e) sessionId title) d)
         else
           run_unchecked (meta_fault e) (update_session_updated_at (meta_now e) sessionId) d)
      of
        None \<Rightarrow> (ProcessDied, d)
      | Some d1 \<Rightarrow>
          (case insert_fault e of
             Some err \<Rightarrow> (Done (Inl err), d1)
           | None \<Rightarrow>
               (Done (Inr ()), insert_message (insert_now e) sessionId role content d1)))"

text \<open>
  \<^verbatim>\<open>createNewChatSession()\<close>: \<open>uuid\<close> is what \<^verbatim>\<open>uuidv4()\<close> returned. A plain \<^verbatim>\<open>INSERT\<close>
  fails on a primary key that is already there.
\<close>

definition createNewChatSession ::
  "db \<Rightarrow> time \<Rightarrow> fault \<Rightarrow> jsstring \<Rightarrow> (jsstring + jsstring) \<times> db" where
  "createNewChatSession d now f uuid =
     (case f of
        Some err \<Rightarrow> (Inl err, d)
      | None \<Rightarrow>
          if sqlite_text uuid \<in> set (map s_id (chat_sessions d))
          then (Inl (js ''SQLITE_CONSTRAINT: UNIQUE constraint failed: chat_sessions.id''), d)
          else (Inr uuid,
                d\<lparr>chat_sessions := chat_sessions d
                     @ [\<lparr>s_id = sqlite_text uuid, s_title = sqlite_text (js ''New Chat''),
                         s_created_at = now, s_updated_at = now\<rparr>]\<rparr>))"

text \<open>\<^verbatim>\<open>deleteChatSession(sessionId)\<close>: only the second \<^verbatim>\<open>DELETE\<close> has a callback.\<close>

definition deleteChatSession ::
  "db \<Rightarrow> fault \<Rightarrow> fault \<Rightarrow> jsstring \<Rightarrow> (jsstring + unit) run \<times> db" where
  "deleteChatSession d f1 f2 sessionId =
     (case run_unchecked f1 (delete_messages sessionId) d of
        None \<Rightarrow> (ProcessDied, d)
      | Some d1 \<Rightarrow>
          (case f2 of
             Some err \<Rightarrow> (Done (Inl err), d1)
           | None \<Rightarrow> (Done (Inr ()), delete_session sessionId d1)))"

section \<open>The HTTP handlers\<close>

text \<open>A response is a status code and a body.\<close>

datatype body =
    ErrorJson jsstring
  | ReplyJson jsstring jsstring nat
  | DeletedJson jsstring
  | Attachment jsstring jsstring

type_synonym response = "nat \<times> body"

text \<open>
  \<^verbatim>\<open>req.body\<close> after \<^verbatim>\<open>express.json()\<close>: \<open>NoBody\<close> when the middleware parsed nothing and
  left it undefined (a request without a JSON body, under Express 5), else the parsed
  object, of which the handler reads the field \<^verbatim>\<open>message\<close>: \<open>None\<close> when the object has no
  such field, \<open>Some text\<close> when the field is a string.
\<close>

datatype request_body = NoBody | Body "jsstring option"

text \<open>
  What \<^verbatim>\<open>groq.chat.completions.create\<close> did with the messages it was sent: a completion,
  of which the handler reads \<^verbatim>\<open>choices[0].message.content\<close> and \<^verbatim>\<open>usage.total_tokens\<close>, or
  an exception with its message.
\<close>

datatype gateway_result =
    Completion jsstring nat
  | GatewayError jsstring

text \<open>\<^verbatim>\<open>String.prototype.includes\<close>: \<open>s\<close> occurs in the text as a contiguous substring.\<close>

fun includes_str :: "'a list \<Rightarrow> 'a list \<Rightarrow> bool" where
  "includes_str [] s = (s = [])"
| "includes_str (c # cs) s = (take (length s) (c # cs) = s \<or> includes_str cs s)"

text \<open>The \<^verbatim>\<open>catch\<close> block of the message route, applied to \<^verbatim>\<open>error.message\<close>.\<close>

definition catch_message_error :: "jsstring \<Rightarrow> response" where
  "catch_message_error msg =
     (if includes_str msg (js ''rate limit'') then
        (429, ErrorJson (js ''Rate limit exceeded. Please wait a moment and try again.''))
      else if includes_str msg (js ''quota'') then
        (429, ErrorJson (js ''API quota exceeded. Please check your Groq account.''))
      else
        (500, ErrorJson (js ''AI service error: '' @ msg)))"

text \<open>
  \<^verbatim>\<open>history.slice(-15)\<close>: the start index is \<^verbatim>\<open>max(length - 15, 0)\<close>. Then the list sent to
  the gateway: the system message, followed by a copy of every recent message.
\<close>

definition recentHistory :: "chat_message list \<Rightarrow> chat_message list" where
  "recentHistory history =
     drop (if 15 \<le> length history then length history - 15 else 0) history"

definition system_message :: chat_message where
  "system_message =
     \<lparr>msg_role = js ''system'',
      msg_content = js ''You are a helpful, detailed, and enthusiastic AI assistant. Provide comprehensive and thorough responses while maintaining natural conversation flow.''\<rparr>"

definition gateway_messages :: "chat_message list \<Rightarrow> chat_message list" where
  "gateway_messages history =
     system_message
     # map (\<lambda>msg. \<lparr>msg_role = msg_role msg, msg_content = msg_content msg\<rparr>)
         (recentHistory history)"

text \<open>
  The environment of one request to \<^verbatim>\<open>POST /api/chats/:sessionId/message\<close>: the faults of
  the two history reads, the environments of the two \<^verbatim>\<open>saveMessage\<close> calls, and the gateway
  as a function of the messages it is sent.
\<close>

record send_env =
  history1_fault :: fault
  user_env :: save_env
  history2_fault :: fault
  gateway :: "chat_message list \<Rightarrow> gateway_result"
  assistant_env :: save_env

text \<open>
  The message of the \<^verbatim>\<open>TypeError\<close> that \<^verbatim>\<open>const { message } = req.body\<close> throws when
  \<^verbatim>\<open>req.body\<close> is undefined.
\<close>

definition destructure_error :: jsstring where
  "destructure_error =
     js ''Cannot destructure property 'message' of 'req.body' as it is undefined.''"

text \<open>
  The route \<^verbatim>\<open>POST /api/chats/:sessionId/message\<close>. The whole handler is inside
  \<^verbatim>\<open>try\<close>: the destructuring of \<^verbatim>\<open>req.body\<close> comes first and throws when there is no
  body; then \<^verbatim>\<open>!message\<close> holds for a missing field and for the empty string. Every
  \<^verbatim>\<open>await\<close> that throws leads to the \<^verbatim>\<open>catch\<close> block; the store keeps what was written
  before. When the process dies under a \<^verbatim>\<open>saveMessage\<close>, no response is sent.
\<close>

definition sendMessage ::
  "db \<Rightarrow> send_env \<Rightarrow> jsstring \<Rightarrow> request_body \<Rightarrow> response run \<times> db" where
  "sendMessage d env sessionId body =
     (case body of
        NoBody \<Rightarrow> (Done (catch_message_error destructure_error), d)
      | Body message \<Rightarrow>
     (case message of
        None \<Rightarrow> (Done (400, ErrorJson (js ''Message is required'')), d)
      | Some text \<Rightarrow>
          if text = [] then (Done (400, ErrorJson (js ''Message is required'')), d)
          else
            (case getConversationHistory d (history1_fault env) sessionId of
               Inl err \<Rightarrow> (Done (catch_message_error err), d)
             | Inr existingMessages \<Rightarrow>
                 (let isFirstMessage = (length existingMessages = 0)
                  in case saveMessage d (user_env env) sessionId (js ''user'') text
                            isFirstMessage of
                       (ProcessDied, d1) \<Rightarrow> (ProcessDied, d1)
                     | (Done (Inl err), d1) \<Rightarrow> (Done (catch_message_error err), d1)
                     | (Done (Inr u), d1) \<Rightarrow>
                         (case getConversationHistory d1 (history2_fault env) sessionId of
                            Inl err \<Rightarrow> (Done (catch_message_error err), d1)
                          | Inr history \<Rightarrow>
                              (case gateway env (gateway_messages history) of
                                 GatewayError err \<Rightarrow> (Done (catch_message_error err), d1)
                               | Completion aiResponse tokensUsed \<Rightarrow>
                                   (case saveMessage d1 (assistant_env env) sessionId
                                           (js ''assistant'') aiResponse False of
                                      (ProcessDied, d2) \<Rightarrow> (ProcessDied, d2)
                                    | (Done (Inl err), d2) \<Rightarrow>
                                        (Done (catch_message_error err), d2)
                                    | (Done (Inr u), d2) \<Rightarrow>
                                        (Done (200, ReplyJson aiResponse sessionId tokensUsed),
                                         d2))))))))"

text \<open>The route \<^verbatim>\<open>DELETE /api/chats/:sessionId\<close>.\<close>

definition deleteChat :: "db \<Rightarrow> fault \<Rightarrow> fault \<Rightarrow> jsstring \<Rightarrow> response run \<times> db" where
  "deleteChat d f1 f2 sessionId =
     (case deleteChatSession d f1 f2 sessionId of
        (ProcessDied, d1) \<Rightarrow> (ProcessDied, d1)
      | (Done (Inl err), d1) \<Rightarrow> (Done (500, ErrorJson (js ''Failed to delete chat'')), d1)
      | (Done (Inr u), d1) \<Rightarrow> (Done (200, DeletedJson (js ''Chat deleted successfully'')), d1))"

text \<open>
  \<^verbatim>\<open>db.get('SELECT title FROM chat_sessions WHERE id = ?', ...)\<close> hands its callback the
  error, or the first matching row if there is one.
\<close>

definition get_title_row :: "db \<Rightarrow> fault \<Rightarrow> jsstring \<Rightarrow> jsstring + session_row option" where
  "get_title_row d f sessionId =
     (case f of
        Some err \<Rightarrow> Inl err
      | None \<Rightarrow>
          (case filter (\<lambda>r. s_id r = sqlite_text sessionId) (chat_sessions d) of
             [] \<Rightarrow> Inr None
           | r # rs \<Rightarrow> Inr (Some r)))"

text \<open>
  \<^verbatim>\<open>res.setHeader\<close> throws on a header value with a character other than a tab, a
  printable ASCII character or a character from \<^verbatim>\<open>80\<close> to \<^verbatim>\<open>FF\<close>.
\<close>

definition legal_header_unit :: "code_unit \<Rightarrow> bool" where
  "legal_header_unit u =
     (unat u = 0x09 \<or> (0x20 \<le> unat u \<and> unat u \<le> 0x7E) \<or> (0x80 \<le> unat u \<and> unat u \<le> 0xFF))"

text \<open>
  The route \<^verbatim>\<open>GET /api/chats/:sessionId/export\<close>. The callback of the title fetch is
  \<^verbatim>\<open>(err, row) => resolve(row)\<close>: on an error \<^verbatim>\<open>row\<close> is undefined and \<^verbatim>\<open>err\<close> is dropped.
  \<^verbatim>\<open>session?.title || 'Untitled'\<close> takes the placeholder for a missing row and for an empty
  title. \<open>exported\<close> is the text of \<^verbatim>\<open>new Date().toLocaleString()\<close>. The header
  \<^verbatim>\<open>Content-Disposition\<close> carries the session id; when \<^verbatim>\<open>setHeader\<close> throws, the \<^verbatim>\<open>catch\<close>
  block answers.
\<close>

definition exportChat :: "db \<Rightarrow> fault \<Rightarrow> fault \<Rightarrow> jsstring \<Rightarrow> jsstring \<Rightarrow> response" where
  "exportChat d f_history f_title exported sessionId =
     (case getConversationHistory d f_history sessionId of
        Inl err \<Rightarrow> (500, ErrorJson (js ''Export failed''))
      | Inr msgs \<Rightarrow>
          (let session = (case get_title_row d f_title sessionId of
                            Inl err \<Rightarrow> None
                          | Inr row \<Rightarrow> row);
               title = (case session of
                          None \<Rightarrow> js ''Untitled''
                        | Some r \<Rightarrow> if s_title r = [] then js ''Untitled'' else s_title r);
               exportText =
                 js ''AI Chat Export\<newline>''
                 @ js ''Title: '' @ title @ js ''\<newline>''
                 @ js ''Exported: '' @ exported @ js ''\<newline>''
                 @ js ''========================================\<newline>\<newline>''
                 @ concat (map (\<lambda>msg.
                      (if msg_role msg = js ''user'' then js ''You'' else js ''AI Assistant'')
                      @ js '': '' @ msg_content msg @ js ''\<newline>\<newline>'') msgs)
           in if list_all legal_header_unit
                   (js ''attachment; filename=chat-'' @ sessionId @ js ''.txt'')
              then (200, Attachment (js ''chat-'' @ sessionId @ js ''.txt'') exportText)
              else (500, ErrorJson (js ''Export failed''))))"

section \<open>Sequences of calls, and concrete stores and environments\<close>

text \<open>One \<^verbatim>\<open>saveMessage\<close> call with its environment, and a sequence of them run in order.\<close>

record save_call =
  call_env :: save_env
  call_sessionId :: jsstring
  call_role :: jsstring
  call_content :: jsstring
  call_isFirstMessage :: bool

fun saveMessages :: "db \<Rightarrow> save_call list \<Rightarrow> db" where
  "saveMessages d [] = d"
| "saveMessages d (c # cs) =
     saveMessages
       (snd (saveMessage d (call_env c) (call_sessionId c) (call_role c) (call_content c)
               (call_isFirstMessage c)))
       cs"

text \<open>A \<^verbatim>\<open>saveMessage\<close> environment without faults, both statements run in second \<open>t\<close>.\<close>

definition ok_save :: "time \<Rightarrow> save_env" where
  "ok_save t = \<lparr>meta_now = t, meta_fault = None, insert_now = t, insert_fault = None\<rparr>"

definition save_call_at :: "time \<Rightarrow> string \<Rightarrow> string \<Rightarrow> string \<Rightarrow> bool \<Rightarrow> save_call" where
  "save_call_at t sessionId role content isFirstMessage =
     \<lparr>call_env = ok_save t, call_sessionId = js sessionId, call_role = js role,
      call_content = js content, call_isFirstMessage = isFirstMessage\<rparr>"

text \<open>
  A \<^verbatim>\<open>saveMessage\<close> environment in which the session statement runs and the message
  insert fails with the message \<open>err\<close>.
\<close>

definition failing_insert :: "time \<Rightarrow> jsstring \<Rightarrow> save_env" where
  "failing_insert t err =
     \<lparr>meta_now = t, meta_fault = None, insert_now = t, insert_fault = Some err\<rparr>"

text \<open>
  Request environments without storage faults: the user message is saved in second \<open>t\<close>,
  the reply in the next one. The gateway either answers or fails, whatever it is sent.
\<close>

definition answering_gateway :: "chat_message list \<Rightarrow> gateway_result" where
  "answering_gateway msgs = Completion (js ''Hello! How can I help?'') 42"

definition failing_gateway :: "jsstring \<Rightarrow> chat_message list \<Rightarrow> gateway_result" where
  "failing_gateway err msgs = GatewayError err"

definition ok_send :: "time \<Rightarrow> (chat_message list \<Rightarrow> gateway_result) \<Rightarrow> send_env" where
  "ok_send t g =
     \<lparr>history1_fault = None, user_env = ok_save t, history2_fault = None, gateway = g,
      assistant_env = ok_save (Suc t)\<rparr>"

text \<open>
  A store with one session, created in second 100 as \<^verbatim>\<open>POST /api/chats/new\<close> does, and
  the same store after one exchange in seconds 160 and 161.
\<close>

definition new_chat_db :: db where
  "new_chat_db = snd (createNewChatSession empty_db 100 None (js ''s1''))"

definition one_chat_db :: db where
  "one_chat_db =
     snd (sendMessage new_chat_db (ok_send 160 answering_gateway) (js ''s1'')
            (Body (Some (js ''hello''))))"

text \<open>Twenty messages, alternating user and assistant, the \<open>i\<close>-th with \<open>i + 1\<close> letters.\<close>

definition twenty_messages :: "chat_message list" where
  "twenty_messages =
     map (\<lambda>i. \<lparr>msg_role = (if even i then js ''user'' else js ''assistant''),
               msg_content = js (replicate (Suc i) (CHR ''a''))\<rparr>) [0..<20]"

text \<open>
  A message of 38 code units whose units 30 and 31 are the two halves of one character
  (\<^verbatim>\<open>U+1F600\<close>, a smiley): 29 letters, the pair, and 7 more letters.
\<close>

definition smiley_message :: jsstring where
  "smiley_message =
     js ''I passed the exam this time: '' @ [0xD83D, 0xDE00] @ js '' hurray''"

section \<open>Claims\<close>

subsection \<open>Literals and stored text\<close>

lemma of_char_less_256: "(of_char c :: nat) < 256"
  by (metis of_char_mod_256 mod_less_divisor zero_less_numeral)

lemma unat_js_unit: "unat (word_of_nat (of_char c) :: code_unit) = of_char c"
proof -
  have "(of_char c :: nat) < 65536"
    using of_char_less_256 [of c] by linarith
  then have "(of_char c :: nat) mod 65536 = of_char c" by (rule mod_less)
  then show ?thesis by (simp add: unat_of_nat)
qed

lemma js_unit_eq_iff:
  "(word_of_nat (of_char a) :: code_unit) = word_of_nat (of_char b) \<longleftrightarrow> a = b"
proof
  assume "(word_of_nat (of_char a) :: code_unit) = word_of_nat (of_char b)"
  then have "unat (word_of_nat (of_char a) :: code_unit)
             = unat (word_of_nat (of_char b) :: code_unit)"
    by simp
  then have "(of_char a :: nat) = of_char b"
    by (simp only: unat_js_unit)
  then show "a = b" by simp
qed simp

lemma js_eq_iff: "js a = js b \<longleftrightarrow> a = b"
proof -
  have "inj (\<lambda>c. word_of_nat (of_char c) :: code_unit)"
    by (rule injI) (simp only: js_unit_eq_iff)
  then show ?thesis
    unfolding js_def by (rule inj_map_eq_map)
qed

lemma js_Nil: "js [] = []"
  by (simp add: js_def)

lemma js_Cons: "js (c # cs) = word_of_nat (of_char c) # js cs"
  by (simp add: js_def)

lemma js_is_Nil: "js a = [] \<longleftrightarrow> a = []"
  by (simp add: js_def)

lemma js_append: "js a @ js b = js (a @ b)"
  by (simp add: js_def)

lemma js_append_more: "js a @ js b @ us = js (a @ b) @ us"
  by (simp add: js_def)

lemma length_js: "length (js a) = length a"
  by (simp add: js_def)

lemma take_js: "take n (js a) = js (take n a)"
  by (simp add: js_def take_map)

lemma not_surrogate_js_unit:
  "\<not> is_high (word_of_nat (of_char c)) \<and> \<not> is_low (word_of_nat (of_char c))"
proof -
  have "(of_char c :: nat) < 256" by (rule of_char_less_256)
  then show ?thesis
    unfolding is_high_def is_low_def unat_js_unit by linarith
qed

lemma sqlite_text_id:
  "\<forall>u \<in> set s. \<not> is_high u \<and> \<not> is_low u \<Longrightarrow> sqlite_text s = s"
  by (induction s rule: sqlite_text.induct) simp_all

lemma sqlite_text_js: "sqlite_text (js s) = js s"
proof (rule sqlite_text_id)
  show "\<forall>u \<in> set (js s). \<not> is_high u \<and> \<not> is_low u"
    unfolding js_def using not_surrogate_js_unit by (simp only: set_map ball_simps) blast
qed

lemma sqlite_text_Cons_plain:
  "\<not> is_high u \<Longrightarrow> \<not> is_low u \<Longrightarrow> sqlite_text (u # us) = u # sqlite_text us"
  by (cases us) simp_all

lemma sqlite_text_js_append: "sqlite_text (js a @ us) = js a @ sqlite_text us"
  by (induction a) (simp_all add: js_Nil js_Cons sqlite_text_Cons_plain not_surrogate_js_unit)

lemma sqlite_text_lone_high:
  assumes "is_high u"
  shows "sqlite_text (u # js s) = 0xFFFD # js s"
proof (cases s)
  case Nil
  then show ?thesis using assms by (simp add: js_Nil)
next
  case (Cons c cs)
  have "sqlite_text (u # js s) = 0xFFFD # sqlite_text (js s)"
    using assms by (simp add: Cons js_Cons not_surrogate_js_unit)
  then show ?thesis by (simp add: sqlite_text_js)
qed

lemma includes_str_js: "includes_str (js a) (js b) = includes_str a b"
proof (induction a)
  case Nil
  show ?case by (simp add: js_Nil js_is_Nil)
next
  case (Cons c cs)
  have "includes_str (js (c # cs)) (js b)
        = (take (length (js b)) (js (c # cs)) = js b \<or> includes_str (js cs) (js b))"
    by (simp add: js_Cons)
  then show ?case
    by (simp add: Cons.IH take_js length_js js_eq_iff)
qed

lemma legal_header_js:
  "list_all legal_header_unit (js s)
   = list_all (\<lambda>c. (of_char c :: nat) = 9 \<or> (32 \<le> (of_char c :: nat) \<and> (of_char c :: nat) \<le> 126)
                    \<or> (128 \<le> (of_char c :: nat) \<and> (of_char c :: nat) \<le> 255)) s"
  by (induction s) (simp_all add: js_Nil js_Cons legal_header_unit_def unat_js_unit)

lemmas js_simps =
  js_eq_iff js_Nil js_is_Nil js_append js_append_more length_js take_js sqlite_text_js
  includes_str_js legal_header_js

lemmas eval_defs =
  one_chat_db_def new_chat_db_def empty_db_def createNewChatSession_def
  sendMessage_def getConversationHistory_def saveMessage_def run_unchecked_def
  insert_or_replace_session_def update_session_updated_at_def insert_message_def
  delete_messages_def delete_session_def deleteChatSession_def
  ok_send_def ok_save_def failing_insert_def answering_gateway_def failing_gateway_def
  catch_message_error_def gateway_messages_def recentHistory_def system_message_def
  destructure_error_def exportChat_def get_title_row_def session_ids_def Let_def

lemma one_chat_db_eq:
  "one_chat_db =
     \<lparr>chat_sessions =
        [\<lparr>s_id = js ''s1'', s_title = js ''hello'', s_created_at = 160, s_updated_at = 161\<rparr>],
      messages =
        [\<lparr>m_id = 1, m_session_id = js ''s1'', m_role = js ''user'', m_content = js ''hello'',
           m_timestamp = 160\<rparr>,
         \<lparr>m_id = 2, m_session_id = js ''s1'', m_role = js ''assistant'',
           m_content = js ''Hello! How can I help?'', m_timestamp = 161\<rparr>],
      msg_seq = 2\<rparr>"
  by (simp add: eval_defs js_simps)

subsection \<open>What one \<^verbatim>\<open>saveMessage\<close> call does to the tables\<close>

lemma fst_saveMessage:
  "fst (saveMessage d e sid rl txt first) =
     (case meta_fault e of
        Some err \<Rightarrow> ProcessDied
      | None \<Rightarrow> Done (case insert_fault e of Some err \<Rightarrow> Inl err | None \<Rightarrow> Inr ()))"
  by (simp add: saveMessage_def run_unchecked_def Let_def split: option.splits)

lemma messages_saveMessage:
  "messages (snd (saveMessage d e sid rl txt first)) =
     (if meta_fault e = None \<and> insert_fault e = None
      then messages d @ [\<lparr>m_id = Suc (msg_seq d), m_session_id = sqlite_text sid,
                           m_role = sqlite_text rl, m_content = sqlite_text txt,
                           m_timestamp = insert_now e\<rparr>]
      else messages d)"
  by (auto simp: saveMessage_def run_unchecked_def Let_def insert_message_def
      insert_or_replace_session_def update_session_updated_at_def split: option.splits)

lemma session_ids_touch:
  "session_ids (update_session_updated_at t sid d) = session_ids d"
  by (simp add: session_ids_def update_session_updated_at_def image_image)
    (rule image_cong, simp_all)

lemma session_ids_replace:
  "session_ids (insert_or_replace_session t sid ttl d) = insert (sqlite_text sid) (session_ids d)"
  by (auto simp: session_ids_def insert_or_replace_session_def)

lemma session_ids_insert_message:
  "session_ids (insert_message t sid rl txt d) = session_ids d"
  by (simp add: session_ids_def insert_message_def)

lemma session_ids_saveMessage:
  "session_ids (snd (saveMessage d e sid rl txt first)) =
     (if first \<and> meta_fault e = None then insert (sqlite_text sid) (session_ids d)
      else session_ids d)"
  by (simp add: saveMessage_def run_unchecked_def Let_def session_ids_touch
      session_ids_replace session_ids_insert_message split: option.splits)

subsection \<open>The order of a history\<close>

lemma sorted_drop_middle: "sorted (xs @ t # ys) \<Longrightarrow> sorted (xs @ (ys :: nat list))"
  by (auto simp: sorted_append)

lemma sorted_messages_saveMessages:
  "sorted (map m_timestamp (messages d) @ map (\<lambda>c. insert_now (call_env c)) calls)
   \<Longrightarrow> sorted (map m_timestamp (messages (saveMessages d calls)))"
proof (induction calls arbitrary: d)
  case Nil
  then show ?case by simp
next
  case (Cons c cs)
  let ?d1 = "snd (saveMessage d (call_env c) (call_sessionId c) (call_role c) (call_content c)
               (call_isFirstMessage c))"
  have "sorted (map m_timestamp (messages ?d1) @ map (\<lambda>c. insert_now (call_env c)) cs)"
  proof (cases "meta_fault (call_env c) = None \<and> insert_fault (call_env c) = None")
    case True
    then show ?thesis using Cons.prems by (simp add: messages_saveMessage)
  next
    case False
    have "sorted (map m_timestamp (messages d) @ map (\<lambda>c. insert_now (call_env c)) cs)"
      using Cons.prems sorted_drop_middle by simp
    with False show ?thesis by (auto simp: messages_saveMessage)
  qed
  then show ?case using Cons.IH by simp
qed

lemma session_messages_saveMessages:
  "map (\<lambda>m. \<lparr>msg_role = m_role m, msg_content = m_content m\<rparr>)
     (filter (\<lambda>m. m_session_id m = sid) (messages (saveMessages d calls)))
   = map (\<lambda>m. \<lparr>msg_role = m_role m, msg_content = m_content m\<rparr>)
       (filter (\<lambda>m. m_session_id m = sid) (messages d))
     @ map (\<lambda>c. \<lparr>msg_role = sqlite_text (call_role c),
                  msg_content = sqlite_text (call_content c)\<rparr>)
         (filter (\<lambda>c. sqlite_text (call_sessionId c) = sid
                       \<and> meta_fault (call_env c) = None
                       \<and> insert_fault (call_env c) = None) calls)"
proof (induction calls arbitrary: d)
  case Nil
  then show ?case by simp
next
  case (Cons c cs)
  show ?case
    by (cases "meta_fault (call_env c) = None \<and> insert_fault (call_env c) = None")
      (auto simp: Cons.IH messages_saveMessage)
qed

lemma history_of_sorted_store:
  assumes "sorted (map m_timestamp (messages d))"
  shows "getConversationHistory d None sid =
           Inr (map (\<lambda>m. \<lparr>msg_role = m_role m, msg_content = m_content m\<rparr>)
                  (filter (\<lambda>m. m_session_id m = sqlite_text sid) (messages d)))"
proof -
  have "sorted (map m_timestamp (filter (\<lambda>m. m_session_id m = sqlite_text sid) (messages d)))"
    using assms by (rule sorted_filter)
  then show ?thesis
    by (simp add: getConversationHistory_def sort_key_id_if_sorted)
qed

lemma history_after_saveMessages:
  assumes "sorted (map m_timestamp (messages d) @ map (\<lambda>c. insert_now (call_env c)) calls)"
  shows "\<exists>before.
           getConversationHistory d None sid = Inr before
           \<and> getConversationHistory (saveMessages d calls) None sid =
               Inr (before
                    @ map (\<lambda>c. \<lparr>msg_role = sqlite_text (call_role c),
                                 msg_content = sqlite_text (call_content c)\<rparr>)
                        (filter (\<lambda>c. sqlite_text (call_sessionId c) = sqlite_text sid
                                      \<and> meta_fault (call_env c) = None
                                      \<and> insert_fault (call_env c) = None) calls))"
proof -
  have "sorted (map m_timestamp (messages d))"
    using assms by (simp add: sorted_append)
  moreover have "sorted (map m_timestamp (messages (saveMessages d calls)))"
    using assms by (rule sorted_messages_saveMessages)
  ultimately show ?thesis
    by (simp add: history_of_sorted_store session_messages_saveMessages)
qed

text \<open>
  Claim C1, as amended. Take a store whose message rows carry non-decreasing timestamps,
  and any sequence of \<^verbatim>\<open>saveMessage\<close> calls, on any sessions in any interleaving, whose
  statements run without a storage fault while the clock read by the inserts does not go
  back. Then the history of a session is what it was before, followed by exactly the
  messages of the calls on that session, in the order of the calls, each with its role and
  content as SQLite stores them (as they were appended, when they are well-formed
  UTF-16). Inserts within one second get equal timestamps and stay in insertion order.
\<close>

theorem history_in_append_order:
  assumes "sorted (map m_timestamp (messages d) @ map (\<lambda>c. insert_now (call_env c)) calls)"
    and "\<forall>c \<in> set calls. meta_fault (call_env c) = None \<and> insert_fault (call_env c) = None"
  shows "\<exists>before.
           getConversationHistory d None sessionId = Inr before
           \<and> getConversationHistory (saveMessages d calls) None sessionId =
               Inr (before
                    @ map (\<lambda>c. \<lparr>msg_role = sqlite_text (call_role c),
                                 msg_content = sqlite_text (call_content c)\<rparr>)
                        (filter (\<lambda>c. sqlite_text (call_sessionId c) = sqlite_text sessionId)
                           calls))"
proof -
  have "filter (\<lambda>c. sqlite_text (call_sessionId c) = sqlite_text sessionId
                     \<and> meta_fault (call_env c) = None
                     \<and> insert_fault (call_env c) = None) calls
        = filter (\<lambda>c. sqlite_text (call_sessionId c) = sqlite_text sessionId) calls"
    using assms(2) by (intro filter_cong) auto
  then show ?thesis
    using history_after_saveMessages [OF assms(1), of sessionId] by simp
qed

theorem history_in_append_order_witness:
  "sorted (map m_timestamp (messages empty_db) @ [5, 5, 5, 6, 6])
   \<and> getConversationHistory empty_db None (js ''a'') = Inr []
   \<and> getConversationHistory
       (saveMessages empty_db
          [save_call_at 5 ''a'' ''user'' ''one'' True,
           save_call_at 5 ''b'' ''user'' ''other'' True,
           save_call_at 5 ''a'' ''assistant'' ''two'' False,
           save_call_at 6 ''b'' ''assistant'' ''another'' False,
           save_call_at 6 ''a'' ''user'' ''three'' False]) None (js ''a'')
     = Inr [\<lparr>msg_role = js ''user'', msg_content = js ''one''\<rparr>,
            \<lparr>msg_role = js ''assistant'', msg_content = js ''two''\<rparr>,
            \<lparr>msg_role = js ''user'', msg_content = js ''three''\<rparr>]"
  using history_in_append_order [of empty_db
        "[save_call_at 5 ''a'' ''user'' ''one'' True,
          save_call_at 5 ''b'' ''user'' ''other'' True,
          save_call_at 5 ''a'' ''assistant'' ''two'' False,
          save_call_at 6 ''b'' ''assistant'' ''another'' False,
          save_call_at 6 ''a'' ''user'' ''three'' False]" "js ''a''"]
  by (simp add: empty_db_def save_call_at_def ok_save_def getConversationHistory_def js_simps)

text \<open>
  Claim C1 as stated fails. The query orders by timestamp, and the timestamp is the
  reading of the clock at the insert. On the empty store the message \<open>one\<close> is appended to
  the session \<open>a\<close> in second 5; the clock is then set back, and the message \<open>two\<close> is
  appended to the same session in second 4. The history returns \<open>two\<close> before \<open>one\<close>.
\<close>

theorem history_after_clock_set_back:
  "getConversationHistory
     (saveMessages empty_db
        [save_call_at 5 ''a'' ''user'' ''one'' True,
         save_call_at 4 ''a'' ''assistant'' ''two'' False]) None (js ''a'')
   = Inr [\<lparr>msg_role = js ''assistant'', msg_content = js ''two''\<rparr>,
          \<lparr>msg_role = js ''user'', msg_content = js ''one''\<rparr>]
   \<and> getConversationHistory
     (saveMessages empty_db
        [save_call_at 5 ''a'' ''user'' ''one'' True,
         save_call_at 4 ''a'' ''assistant'' ''two'' False]) None (js ''a'')
   \<noteq> Inr [\<lparr>msg_role = js ''user'', msg_content = js ''one''\<rparr>,
          \<lparr>msg_role = js ''assistant'', msg_content = js ''two''\<rparr>]"
  by (simp add: eval_defs save_call_at_def js_simps)

subsection \<open>The history window\<close>

lemma recentHistory_drop: "recentHistory history = drop (length history - 15) history"
  by (simp add: recentHistory_def)

lemma copy_of_message: "\<lparr>msg_role = msg_role m, msg_content = msg_content m\<rparr> = m"
  by (cases m) simp

lemma gateway_messages_eq:
  "gateway_messages history = system_message # drop (length history - 15) history"
  by (simp add: gateway_messages_def recentHistory_drop copy_of_message)

text \<open>
  Claim C2. The list sent to the gateway is the system message with the fixed instruction
  text, followed by the last \<open>min 15 n\<close> of the \<open>n\<close> messages of the history, unchanged and
  in order: the history is some older messages followed by exactly the tail of the list.
  No other message of the list has the role system unless the history had one. For a
  history of 20 messages the list has 16 elements and its last 15 are the last 15 of the
  history.
\<close>

theorem history_windower:
  "hd (gateway_messages history) = system_message
   \<and> msg_role system_message = js ''system''
   \<and> msg_content system_message = js ''You are a helpful, detailed, and enthusiastic AI assistant. Provide comprehensive and thorough responses while maintaining natural conversation flow.''
   \<and> length (tl (gateway_messages history)) = min 15 (length history)
   \<and> (\<exists>older. history = older @ tl (gateway_messages history))
   \<and> ((\<forall>m \<in> set history. msg_role m \<noteq> js ''system'') \<longrightarrow>
        filter (\<lambda>m. msg_role m = js ''system'') (gateway_messages history) = [system_message])
   \<and> (length history = 20 \<longrightarrow>
        length (gateway_messages history) = 16
        \<and> tl (gateway_messages history) = drop 5 history)"
proof -
  let ?recent = "drop (length history - 15) history"
  have eq: "gateway_messages history = system_message # ?recent"
    by (rule gateway_messages_eq)
  have older: "history = take (length history - 15) history @ ?recent"
    by simp
  have no_system:
    "filter (\<lambda>m. msg_role m = js ''system'') ?recent = []"
    if "\<forall>m \<in> set history. msg_role m \<noteq> js ''system''"
    using that by (auto simp: filter_empty_conv dest: in_set_dropD)
  have "\<exists>older. history = older @ ?recent"
    using older by blast
  then show ?thesis
    using no_system by (auto simp: eq system_message_def)
qed

theorem history_windower_witness:
  "length twenty_messages = 20
   \<and> length (gateway_messages twenty_messages) = 16
   \<and> hd (gateway_messages twenty_messages) = system_message
   \<and> tl (gateway_messages twenty_messages) = drop 5 twenty_messages
   \<and> filter (\<lambda>m. msg_role m = js ''system'') twenty_messages = []
   \<and> filter (\<lambda>m. msg_role m = js ''system'') (gateway_messages twenty_messages)
     = [system_message]"
proof -
  have len: "length twenty_messages = 20"
    by (simp add: twenty_messages_def)
  have roles: "\<forall>m \<in> set twenty_messages. msg_role m \<noteq> js ''system''"
    by (auto simp: twenty_messages_def js_eq_iff)
  have none: "filter (\<lambda>m. msg_role m = js ''system'') twenty_messages = []"
    using roles by (simp add: filter_empty_conv)
  show ?thesis
    using history_windower [of twenty_messages] len roles none by simp
qed

subsection \<open>The title of a session\<close>

lemma title_of_first_message_row:
  "map s_title (filter (\<lambda>r. s_id r = sqlite_text sid)
     (chat_sessions (insert_or_replace_session now sid ttl d))) = [sqlite_text ttl]"
  by (simp add: insert_or_replace_session_def filter_empty_conv)

lemma chat_sessions_insert_message:
  "chat_sessions (insert_message now sid rl txt d) = chat_sessions d"
  by (simp add: insert_message_def)

text \<open>
  After \<^verbatim>\<open>saveMessage(sessionId, role, content, true)\<close> whose session statement ran, the
  store has exactly one session row with that id. Its title is what SQLite stores for
  \<open>content\<close>, when \<open>content\<close> has at most 30 code units, and for the first 30 code units of
  \<open>content\<close> followed by three dots otherwise. Where that text is well-formed UTF-16 the
  title is the text itself.
\<close>

lemma stored_title_after_first_message:
  assumes "meta_fault e = None"
  shows "map s_title
           (filter (\<lambda>r. s_id r = sqlite_text sessionId)
              (chat_sessions (snd (saveMessage d e sessionId role content True))))
         = [sqlite_text (if length content \<le> 30 then content else take 30 content @ js ''...'')]"
  using assms
  by (cases "insert_fault e")
    (simp_all add: saveMessage_def run_unchecked_def Let_def title_of_first_message_row
      chat_sessions_insert_message)

lemma stored_title_of_well_formed_text:
  assumes "meta_fault e = None"
    and "sqlite_text (if length content \<le> 30 then content else take 30 content @ js ''...'')
         = (if length content \<le> 30 then content else take 30 content @ js ''...'')"
  shows "map s_title
           (filter (\<lambda>r. s_id r = sqlite_text sessionId)
              (chat_sessions (snd (saveMessage d e sessionId role content True))))
         = [if length content \<le> 30 then content else take 30 content @ js ''...'']"
  using stored_title_after_first_message [OF assms(1)] assms(2) by simp

lemma smiley_high: "is_high 0xD83D"
  by (simp add: is_high_def)

text \<open>
  Claim C3, evaluated. The first message of the session \<open>s1\<close> has 38 code units, and its
  units 30 and 31 are the two halves of a smiley. \<^verbatim>\<open>content.substring(0, 30)\<close> ends with
  the first half alone, and the title is bound as UTF-8, where half a character becomes
  the replacement character: the stored title is 29 letters, \<^verbatim>\<open>U+FFFD\<close> and three dots.
  It is not the first 30 code units of the content followed by three dots.
\<close>

theorem title_cut_inside_surrogate_pair:
  "length smiley_message = 38
   \<and> take 30 smiley_message @ js ''...''
     = js ''I passed the exam this time: '' @ [0xD83D] @ js ''...''
   \<and> map s_title
       (chat_sessions
          (snd (saveMessage new_chat_db (ok_save 160) (js ''s1'') (js ''user'')
                  smiley_message True)))
     = [js ''I passed the exam this time: '' @ [0xFFFD] @ js ''...'']
   \<and> map s_title
       (chat_sessions
          (snd (saveMessage new_chat_db (ok_save 160) (js ''s1'') (js ''user'')
                  smiley_message True)))
     \<noteq> [take 30 smiley_message @ js ''...'']"
  by (simp add: eval_defs smiley_message_def js_simps sqlite_text_js_append
      sqlite_text_lone_high smiley_high)

subsection \<open>The creation time of a session\<close>

text \<open>
  Claim C4, evaluated on the ordinary course of a chat. The session \<open>s1\<close> is created in
  second 100 by \<^verbatim>\<open>createNewChatSession\<close>. Its first message is sent in second 160: the
  history is empty, so \<^verbatim>\<open>saveMessage\<close> is called with \<^verbatim>\<open>isFirstMessage = true\<close> and runs
  \<^verbatim>\<open>INSERT OR REPLACE\<close>, which replaces the whole row. Afterwards \<^verbatim>\<open>created_at\<close> of \<open>s1\<close>
  is 160, not 100.
\<close>

theorem created_at_reset_by_first_message:
  "map s_created_at (chat_sessions new_chat_db) = [100]
   \<and> map s_created_at (chat_sessions
        (snd (saveMessage new_chat_db (ok_save 160) (js ''s1'') (js ''user'') (js ''hello'')
                True))) = [160]
   \<and> map s_created_at (chat_sessions
        (snd (sendMessage new_chat_db (ok_send 160 answering_gateway) (js ''s1'')
                (Body (Some (js ''hello'')))))) = [160]"
  by (simp add: eval_defs js_simps)

text \<open>
  The other path of \<^verbatim>\<open>saveMessage\<close>, the \<^verbatim>\<open>UPDATE\<close> of a later message, leaves the
  creation time of every session as it was.
\<close>

lemma created_at_kept_by_later_message:
  "map s_created_at (chat_sessions (snd (saveMessage d e sid rl txt False)))
   = map s_created_at (chat_sessions d)"
proof -
  have "map s_created_at
          (map (\<lambda>r. if s_id r = k then r\<lparr>s_updated_at := t\<rparr> else r) rows)
        = map s_created_at rows" for t k rows
    by (induction rows) auto
  then show ?thesis
    by (simp add: saveMessage_def run_unchecked_def Let_def insert_message_def
        update_session_updated_at_def split: option.splits)
qed

subsection \<open>The two writes of \<^verbatim>\<open>saveMessage\<close>\<close>

text \<open>
  Claim C5, as amended. \<^verbatim>\<open>saveMessage\<close> runs its two statements one after the other and
  not in a transaction: the session statement, once it ran, stays applied whatever
  happens to the message insert. The promise is rejected exactly when the insert fails,
  and then no message row is added; otherwise it is resolved and the row is added.
\<close>

theorem saveMessage_writes_are_separate:
  assumes "meta_fault e = None"
  shows "chat_sessions (snd (saveMessage d e sessionId role content isFirstMessage))
           = (if isFirstMessage then
                chat_sessions (insert_or_replace_session (meta_now e) sessionId
                  (if length content \<le> 30 then content else take 30 content @ js ''...'') d)
              else chat_sessions (update_session_updated_at (meta_now e) sessionId d))
         \<and> (case insert_fault e of
               None \<Rightarrow>
                 fst (saveMessage d e sessionId role content isFirstMessage) = Done (Inr ())
                 \<and> messages (snd (saveMessage d e sessionId role content isFirstMessage))
                   = messages (insert_message (insert_now e) sessionId role content d)
             | Some err \<Rightarrow>
                 fst (saveMessage d e sessionId role content isFirstMessage) = Done (Inl err)
                 \<and> messages (snd (saveMessage d e sessionId role content isFirstMessage))
                   = messages d)"
  using assms
  by (simp add: saveMessage_def run_unchecked_def Let_def insert_message_def
      insert_or_replace_session_def update_session_updated_at_def split: option.splits)

theorem saveMessage_writes_are_separate_witness:
  "meta_fault (ok_save 300) = None
   \<and> fst (saveMessage one_chat_db (ok_save 300) (js ''s1'') (js ''user'') (js ''again'') False)
     = Done (Inr ())
   \<and> map m_content
        (messages (snd (saveMessage one_chat_db (ok_save 300) (js ''s1'') (js ''user'')
                          (js ''again'') False)))
      = [js ''hello'', js ''Hello! How can I help?'', js ''again'']
   \<and> map s_updated_at
        (chat_sessions (snd (saveMessage one_chat_db (ok_save 300) (js ''s1'') (js ''user'')
                               (js ''again'') False)))
      = [300]"
proof -
  have ok: "meta_fault (ok_save 300) = None"
    by (simp add: ok_save_def)
  show ?thesis
    using ok saveMessage_writes_are_separate [OF ok, of one_chat_db "js ''s1''" "js ''user''"
       "js ''again''" False]
    by (simp add: one_chat_db_eq ok_save_def insert_message_def update_session_updated_at_def
        js_simps)
qed

text \<open>
  Claim C5 as stated fails. On the store after one exchange, a later message is saved in
  second 300 and its insert fails because the disk is full: the promise is rejected and no
  message row is added, yet \<^verbatim>\<open>updated_at\<close> of the session has moved from 161 to 300.
\<close>

theorem saveMessage_not_atomic:
  "fst (saveMessage one_chat_db
          (failing_insert 300 (js ''SQLITE_FULL: database or disk is full''))
          (js ''s1'') (js ''user'') (js ''again'') False)
     = Done (Inl (js ''SQLITE_FULL: database or disk is full''))
   \<and> messages (snd (saveMessage one_chat_db
         (failing_insert 300 (js ''SQLITE_FULL: database or disk is full''))
          (js ''s1'') (js ''user'') (js ''again'') False))
     = messages one_chat_db
   \<and> map s_updated_at (chat_sessions one_chat_db) = [161]
   \<and> map s_updated_at (chat_sessions (snd (saveMessage one_chat_db
         (failing_insert 300 (js ''SQLITE_FULL: database or disk is full''))
          (js ''s1'') (js ''user'') (js ''again'') False)))
     = [300]"
  by (simp add: one_chat_db_eq saveMessage_def run_unchecked_def failing_insert_def
      update_session_updated_at_def js_simps)

subsection \<open>Which requests create a session row\<close>

lemma history_empty_iff:
  assumes "getConversationHistory d f sid = Inr h"
  shows "h = [] \<longleftrightarrow> \<not> (\<exists>m \<in> set (messages d). m_session_id m = sqlite_text sid)"
proof -
  have "length h = length (filter (\<lambda>m. m_session_id m = sqlite_text sid) (messages d))"
    using assms by (auto simp: getConversationHistory_def split: option.splits)
  then show ?thesis
    by (auto simp: filter_empty_conv)
qed

lemma session_ids_sendMessage_saved:
  assumes "msg \<noteq> []" and h: "getConversationHistory d (history1_fault env) sid = Inr h"
  shows "session_ids (snd (sendMessage d env sid (Body (Some msg))))
         = session_ids (snd (saveMessage d (user_env env) sid (js ''user'') msg (h = [])))"
proof -
  obtain r d1 where sm: "saveMessage d (user_env env) sid (js ''user'') msg (h = []) = (r, d1)"
    by (cases "saveMessage d (user_env env) sid (js ''user'') msg (h = [])")
  have start: "sendMessage d env sid (Body (Some msg)) =
      (case r of
         ProcessDied \<Rightarrow> (ProcessDied, d1)
       | Done (Inl err) \<Rightarrow> (Done (catch_message_error err), d1)
       | Done (Inr u) \<Rightarrow>
           (case getConversationHistory d1 (history2_fault env) sid of
              Inl err \<Rightarrow> (Done (catch_message_error err), d1)
            | Inr history \<Rightarrow>
                (case gateway env (gateway_messages history) of
                   GatewayError err \<Rightarrow> (Done (catch_message_error err), d1)
                 | Completion aiResponse tokensUsed \<Rightarrow>
                     (case saveMessage d1 (assistant_env env) sid (js ''assistant'')
                             aiResponse False of
                        (ProcessDied, d2) \<Rightarrow> (ProcessDied, d2)
                      | (Done (Inl err), d2) \<Rightarrow> (Done (catch_message_error err), d2)
                      | (Done (Inr u), d2) \<Rightarrow>
                          (Done (200, ReplyJson aiResponse sid tokensUsed), d2)))))"
    using assms sm by (simp add: sendMessage_def)
  have reply:
    "session_ids (snd (case saveMessage d1 (assistant_env env) sid (js ''assistant'') ai False of
                         (ProcessDied, d2) \<Rightarrow> (ProcessDied, d2)
                       | (Done (Inl err), d2) \<Rightarrow> (Done (catch_message_error err), d2)
                       | (Done (Inr u), d2) \<Rightarrow> (Done (200, ReplyJson ai sid tok), d2)))
     = session_ids d1"
    for ai tok
  proof -
    have "snd (case saveMessage d1 (assistant_env env) sid (js ''assistant'') ai False of
                 (ProcessDied, d2) \<Rightarrow> (ProcessDied, d2)
               | (Done (Inl err), d2) \<Rightarrow> (Done (catch_message_error err), d2)
               | (Done (Inr u), d2) \<Rightarrow> (Done (200, ReplyJson ai sid tok), d2))
          = snd (saveMessage d1 (assistant_env env) sid (js ''assistant'') ai False)"
      by (simp split: prod.splits sum.splits run.splits)
    then show ?thesis
      by (simp add: session_ids_saveMessage)
  qed
  have "session_ids (snd (sendMessage d env sid (Body (Some msg)))) = session_ids d1"
    unfolding start
    by (simp add: reply split: sum.splits gateway_result.splits run.splits)
  then show ?thesis
    using sm by simp
qed

text \<open>
  Claim C6, as amended. A request to the message route adds no session id other than its
  own \<open>sessionId\<close>, and it adds that one exactly when it is a first message: the message
  is a non-empty text, the first history read runs and finds no message of the session,
  and the \<^verbatim>\<open>INSERT OR REPLACE\<close> of \<^verbatim>\<open>saveMessage\<close> runs. So a session id that has no row and
  no messages is created by the request; in every other case the set of session ids is
  unchanged.
\<close>

theorem session_ids_after_sendMessage:
  "session_ids (snd (sendMessage d env sessionId body)) =
     (if body \<noteq> NoBody \<and> body \<noteq> Body None \<and> body \<noteq> Body (Some [])
         \<and> history1_fault env = None
         \<and> \<not> (\<exists>m \<in> set (messages d). m_session_id m = sqlite_text sessionId)
         \<and> meta_fault (user_env env) = None
      then insert (sqlite_text sessionId) (session_ids d)
      else session_ids d)"
proof (cases "body = NoBody \<or> body = Body None \<or> body = Body (Some [])")
  case True
  then show ?thesis by (auto simp: sendMessage_def)
next
  case False
  then obtain msg where msg: "body = Body (Some msg)" "msg \<noteq> []"
  proof (cases body)
    case NoBody
    with False show ?thesis by simp
  next
    case (Body message)
    with False that show ?thesis by (cases message) auto
  qed
  show ?thesis
  proof (cases "getConversationHistory d (history1_fault env) sessionId")
    case (Inl err)
    then have "history1_fault env \<noteq> None"
      by (auto simp: getConversationHistory_def split: option.splits)
    with Inl msg show ?thesis
      by (auto simp: sendMessage_def)
  next
    case (Inr h)
    then have ok: "history1_fault env = None"
      by (auto simp: getConversationHistory_def split: option.splits)
    show ?thesis
      using msg ok history_empty_iff [OF Inr]
      by (simp add: session_ids_sendMessage_saved [OF msg(2) Inr] session_ids_saveMessage)
  qed
qed

theorem session_ids_after_sendMessage_witness:
  "session_ids new_chat_db = {js ''s1''}
   \<and> session_ids
        (snd (sendMessage new_chat_db (ok_send 200 answering_gateway) (js ''s2'')
                (Body (Some (js ''hi'')))))
      = {js ''s1'', js ''s2''}
   \<and> session_ids
        (snd (sendMessage one_chat_db (ok_send 200 answering_gateway) (js ''s1'')
                (Body (Some (js ''hi'')))))
      = {js ''s1''}"
  using session_ids_after_sendMessage [of new_chat_db "ok_send 200 answering_gateway"
      "js ''s2''" "Body (Some (js ''hi''))"]
    session_ids_after_sendMessage [of one_chat_db "ok_send 200 answering_gateway"
      "js ''s1''" "Body (Some (js ''hi''))"]
  by (auto simp: eval_defs js_simps)

text \<open>
  Claim C6 as stated fails. The store holds the session \<open>s1\<close> only; a message sent to the
  unknown id \<open>ghost\<close> leaves a session row \<open>ghost\<close> behind.
\<close>

theorem session_created_by_sendMessage:
  "js ''ghost'' \<notin> session_ids new_chat_db
   \<and> js ''ghost'' \<in> session_ids
        (snd (sendMessage new_chat_db (ok_send 200 answering_gateway) (js ''ghost'')
                (Body (Some (js ''hi'')))))"
  by (simp add: eval_defs js_simps)

subsection \<open>Messages and their sessions\<close>

text \<open>
  Claim C7, evaluated. \<^verbatim>\<open>saveMessage\<close> with \<^verbatim>\<open>isFirstMessage = false\<close> on an id without a
  session row updates no row and inserts the message: on the empty store the message of
  \<open>ghost\<close> is stored and there is no session. The same happens through the routes when a
  session is deleted while a request to it waits for the gateway: after the exchange in
  \<open>s1\<close> the session is deleted, with its messages, and the late reply is then saved for
  \<open>s1\<close>, which has no row any more.
\<close>

theorem message_without_session:
  "session_ids
     (snd (saveMessage empty_db (ok_save 5) (js ''ghost'') (js ''assistant'') (js ''hi'') False))
     = {}
   \<and> map m_session_id
        (messages
           (snd (saveMessage empty_db (ok_save 5) (js ''ghost'') (js ''assistant'') (js ''hi'')
                   False)))
      = [js ''ghost'']
   \<and> session_ids
        (snd (saveMessage (snd (deleteChatSession one_chat_db None None (js ''s1'')))
                (ok_save 170) (js ''s1'') (js ''assistant'') (js ''late reply'') False)) = {}
   \<and> map m_session_id
        (messages
          (snd (saveMessage (snd (deleteChatSession one_chat_db None None (js ''s1'')))
                  (ok_save 170) (js ''s1'') (js ''assistant'') (js ''late reply'') False)))
      = [js ''s1'']"
  by (simp add: eval_defs js_simps)

subsection \<open>Storage faults in the export\<close>

text \<open>
  Claim C8, evaluated on the export route. When the history read fails the route answers
  500. When the title fetch fails, its callback drops the error: the route answers 200
  with a transcript under the placeholder title, although the session has the title
  \<open>hello\<close>.
\<close>

theorem export_swallows_title_fault:
  "exportChat one_chat_db None (Some (js ''SQLITE_IOERR: disk I/O error''))
      (js ''11/2/2026, 10:00:00 AM'') (js ''s1'')
     = (200, Attachment (js ''chat-s1.txt'')
          (js ''AI Chat Export\<newline>Title: Untitled\<newline>Exported: 11/2/2026, 10:00:00 AM\<newline>========================================\<newline>\<newline>You: hello\<newline>\<newline>AI Assistant: Hello! How can I help?\<newline>\<newline>''))
   \<and> map s_title (chat_sessions one_chat_db) = [js ''hello'']
   \<and> exportChat one_chat_db (Some (js ''SQLITE_IOERR: disk I/O error'')) None
        (js ''11/2/2026, 10:00:00 AM'') (js ''s1'')
     = (500, ErrorJson (js ''Export failed''))"
  by (simp add: one_chat_db_eq exportChat_def getConversationHistory_def get_title_row_def
      Let_def js_simps)

text \<open>
  An id with a line feed in it is not a legal header value: \<^verbatim>\<open>setHeader\<close> throws and
  the route answers 500, without any storage fault.
\<close>

lemma export_of_illegal_header_id:
  "exportChat one_chat_db None None (js ''11/2/2026, 10:00:00 AM'') (js ''s'' @ [0x0A])
   = (500, ErrorJson (js ''Export failed''))"
  by (simp add: exportChat_def getConversationHistory_def Let_def legal_header_unit_def
      js_simps)

subsection \<open>A failing gateway\<close>

lemma status_of_catch:
  "fst (catch_message_error err) = 429 \<or> fst (catch_message_error err) = 500"
  by (simp add: catch_message_error_def)

text \<open>
  Claim C9. Let the message be a non-empty text, let the two history reads and the save of
  the user message run without a storage fault, and let the gateway fail, with whatever
  error message, on whatever it is sent. Then the store ends with the messages it had,
  followed by the user message as its one new row; the response is what the \<^verbatim>\<open>catch\<close> block
  makes of the error, with status 429 or 500; and a history read of the session afterwards
  contains the user message.
\<close>

theorem user_message_kept_on_gateway_failure:
  assumes "msg \<noteq> []"
    and "history1_fault env = None"
    and "meta_fault (user_env env) = None"
    and "insert_fault (user_env env) = None"
    and "history2_fault env = None"
    and "\<forall>msgs. \<exists>err. gateway env msgs = GatewayError err"
  shows "messages (snd (sendMessage d env sessionId (Body (Some msg))))
           = messages d @ [\<lparr>m_id = Suc (msg_seq d), m_session_id = sqlite_text sessionId,
                             m_role = js ''user'', m_content = sqlite_text msg,
                             m_timestamp = insert_now (user_env env)\<rparr>]
         \<and> (\<exists>err. fst (sendMessage d env sessionId (Body (Some msg)))
                    = Done (catch_message_error err)
                  \<and> (fst (catch_message_error err) = 429
                       \<or> fst (catch_message_error err) = 500))
         \<and> (\<exists>history.
               getConversationHistory (snd (sendMessage d env sessionId (Body (Some msg))))
                   None sessionId
                 = Inr history
               \<and> \<lparr>msg_role = js ''user'', msg_content = sqlite_text msg\<rparr> \<in> set history)"
proof -
  obtain h where h: "getConversationHistory d (history1_fault env) sessionId = Inr h"
    using assms(2) by (simp add: getConversationHistory_def)
  obtain r d1 where
    sm: "saveMessage d (user_env env) sessionId (js ''user'') msg (h = []) = (r, d1)"
    by (cases "saveMessage d (user_env env) sessionId (js ''user'') msg (h = [])")
  have r: "r = Done (Inr ())"
    using fst_saveMessage [of d "user_env env" sessionId "js ''user''" msg "h = []"] sm
      assms(3,4)
    by simp
  have d1: "messages d1 = messages d @ [\<lparr>m_id = Suc (msg_seq d),
                             m_session_id = sqlite_text sessionId,
                             m_role = js ''user'', m_content = sqlite_text msg,
                             m_timestamp = insert_now (user_env env)\<rparr>]"
    using messages_saveMessage [of d "user_env env" sessionId "js ''user''" msg "h = []"] sm
      assms(3,4)
    by (simp add: sqlite_text_js)
  obtain h2 where h2: "getConversationHistory d1 (history2_fault env) sessionId = Inr h2"
    using assms(5) by (simp add: getConversationHistory_def)
  obtain err where err: "gateway env (gateway_messages h2) = GatewayError err"
    using assms(6) by blast
  have result:
    "sendMessage d env sessionId (Body (Some msg)) = (Done (catch_message_error err), d1)"
    using assms(1) h sm r h2 err by (simp add: sendMessage_def)
  have "\<lparr>msg_role = js ''user'', msg_content = sqlite_text msg\<rparr>
          \<in> set (map (\<lambda>m. \<lparr>msg_role = m_role m, msg_content = m_content m\<rparr>)
                 (sort_key m_timestamp
                    (filter (\<lambda>m. m_session_id m = sqlite_text sessionId) (messages d1))))"
    by (simp add: d1 image_iff)
  then have kept: "\<exists>history. getConversationHistory d1 None sessionId = Inr history
                     \<and> \<lparr>msg_role = js ''user'', msg_content = sqlite_text msg\<rparr> \<in> set history"
    by (simp add: getConversationHistory_def)
  show ?thesis
    unfolding result using d1 kept status_of_catch [of err] by auto
qed

theorem user_message_kept_on_gateway_failure_witness:
  "(\<forall>msgs. \<exists>err. gateway (ok_send 200 (failing_gateway (js ''rate limit reached''))) msgs
                    = GatewayError err)
   \<and> messages
       (snd (sendMessage one_chat_db (ok_send 200 (failing_gateway (js ''rate limit reached'')))
               (js ''s1'') (Body (Some (js ''are you there?'')))))
     = messages one_chat_db
       @ [\<lparr>m_id = 3, m_session_id = js ''s1'', m_role = js ''user'',
           m_content = js ''are you there?'', m_timestamp = 200\<rparr>]
   \<and> fst (sendMessage one_chat_db (ok_send 200 (failing_gateway (js ''rate limit reached'')))
           (js ''s1'') (Body (Some (js ''are you there?''))))
     = Done (429, ErrorJson (js ''Rate limit exceeded. Please wait a moment and try again.''))"
proof -
  let ?env = "ok_send 200 (failing_gateway (js ''rate limit reached''))"
  have a: "js ''are you there?'' \<noteq> []" "history1_fault ?env = None"
    "meta_fault (user_env ?env) = None"
    "insert_fault (user_env ?env) = None" "history2_fault ?env = None"
    "\<forall>msgs. \<exists>err. gateway ?env msgs = GatewayError err"
    by (simp_all add: ok_send_def ok_save_def failing_gateway_def js_is_Nil)
  have seq: "msg_seq one_chat_db = 2"
    by (simp add: one_chat_db_eq)
  have status: "fst (sendMessage one_chat_db ?env (js ''s1'') (Body (Some (js ''are you there?''))))
     = Done (429, ErrorJson (js ''Rate limit exceeded. Please wait a moment and try again.''))"
    by (simp add: one_chat_db_eq sendMessage_def getConversationHistory_def saveMessage_def
        run_unchecked_def update_session_updated_at_def insert_message_def ok_send_def
        ok_save_def failing_gateway_def catch_message_error_def Let_def js_simps)
  show ?thesis
    using a(6) user_message_kept_on_gateway_failure [OF a, of one_chat_db "js ''s1''"] seq status
    by (simp add: ok_send_def ok_save_def js_simps)
qed

subsection \<open>Validation of the message\<close>

text \<open>
  A request whose body was parsed and whose \<^verbatim>\<open>message\<close> field is missing or the empty
  string is answered with status 400, whatever the environment (so no statement was run),
  and the store is left as it was. A request without a parsed body leaves the store as it
  was, too.
\<close>

lemma empty_message_rejected:
  assumes "body = Body None \<or> body = Body (Some [])"
  shows "sendMessage d env sessionId body
         = (Done (400, ErrorJson (js ''Message is required'')), d)"
  using assms by (auto simp: sendMessage_def)

lemma store_kept_without_body:
  "snd (sendMessage d env sessionId NoBody) = d"
  by (simp add: sendMessage_def)

text \<open>
  Claim C10, evaluated. A request to the message route of \<open>s1\<close> arrives without a JSON
  body, so \<^verbatim>\<open>req.body\<close> is undefined and the \<^verbatim>\<open>message\<close> field is missing. The
  destructuring on the line before the guard throws inside \<^verbatim>\<open>try\<close>, and the \<^verbatim>\<open>catch\<close> block
  answers 500 with the text of an AI service error, not 400. The store is unchanged.
\<close>

theorem missing_body_answered_500:
  "sendMessage one_chat_db (ok_send 200 answering_gateway) (js ''s1'') NoBody
   = (Done (500, ErrorJson (js ''AI service error: Cannot destructure property 'message' of 'req.body' as it is undefined.'')),
      one_chat_db)"
  by (simp add: sendMessage_def catch_message_error_def destructure_error_def js_simps)

end
